theory Spec2Isabelle
  imports Complex_Main
begin

section \<open>Python values used by the KPI backend\<close>

subsection \<open>Strings\<close>

text \<open>
  A Python \<open>str\<close> is a sequence of Unicode code points; the employee names and the
  header markers of the timesheets are Cyrillic, so a string is modelled as the list of
  its code points. \<open>strip\<close> removes the characters for which \<open>str.isspace\<close> holds
  (the complete list of Unicode is given). \<open>lower\<close> maps code point by code point; the
  table covers Basic Latin, Latin-1 and the Cyrillic blocks U+0400 to U+052F, which is
  the text the timesheets and the roster are written in, and leaves every other code
  point unchanged.
\<close>

type_synonym ustr = "nat list"

definition isspace :: "nat \<Rightarrow> bool" where
  "isspace c = (c \<in> set [9, 10, 11, 12, 13, 28, 29, 30, 31, 32, 133, 160, 5760,
      8192, 8193, 8194, 8195, 8196, 8197, 8198, 8199, 8200, 8201, 8202,
      8232, 8233, 8239, 8287, 12288])"

definition strip :: "ustr \<Rightarrow> ustr" where
  "strip s = rev (dropWhile isspace (rev (dropWhile isspace s)))"

definition lower_cp :: "nat \<Rightarrow> nat" where
  "lower_cp c =
     (if 65 \<le> c \<and> c \<le> 90 then c + 32
      else if 192 \<le> c \<and> c \<le> 222 \<and> c \<noteq> 215 then c + 32
      else if 1024 \<le> c \<and> c \<le> 1039 then c + 80
      else if 1040 \<le> c \<and> c \<le> 1071 then c + 32
      else if 1120 \<le> c \<and> c \<le> 1153 \<and> even c then c + 1
      else if 1162 \<le> c \<and> c \<le> 1215 \<and> even c then c + 1
      else if c = 1216 then 1231
      else if 1217 \<le> c \<and> c \<le> 1230 \<and> odd c then c + 1
      else if 1232 \<le> c \<and> c \<le> 1327 \<and> even c then c + 1
      else c)"

definition lower :: "ustr \<Rightarrow> ustr" where
  "lower s = map lower_cp s"

text \<open>The string literals of the calculators: \<open>"day"\<close>, \<open>"shift"\<close> and \<open>"4"\<close>.\<close>

definition str_day :: ustr where
  "str_day = [100, 97, 121]"

definition str_shift :: ustr where
  "str_shift = [115, 104, 105, 102, 116]"

definition str_4 :: ustr where
  "str_4 = [52]"

subsection \<open>Numbers\<close>

text \<open>
  Python integers are unbounded: \<open>int\<close>. A finite Python \<open>float\<close> is an IEEE double
  and is modelled as the real number it denotes. \<open>round(x, 2)\<close> rounds the exact value
  of \<open>x\<close> to the nearest multiple of \<open>1/100\<close>, a tie going to the even neighbour, and
  returns the double nearest to that decimal; the model keeps the decimal itself. On an
  integer \<open>round\<close> is the identity.
\<close>

definition round_half_even :: "real \<Rightarrow> int" where
  "round_half_even x =
     (let f = \<lfloor>x\<rfloor>; d = x - of_int f in
      if d < 1 / 2 then f
      else if 1 / 2 < d then f + 1
      else if even f then f else f + 1)"

definition round2 :: "real \<Rightarrow> real" where
  "round2 x = of_int (round_half_even (x * 100)) / 100"

text \<open>
  Every arithmetic operation on floats, and the conversion of an \<open>int\<close> to a float,
  returns the double nearest to the exact result, a tie going to the even significand:
  \<open>to_double\<close>. A double has a significand of 53 bits; \<open>binary_exponent x\<close> is the
  exponent of the leading bit of \<open>x\<close>, and below the smallest normal number, of
  exponent \<open>-1022\<close>, the spacing of the doubles stays \<open>2^-1074\<close>. Comparisons, \<open>max\<close> and
  \<open>min\<close> are exact. The model has no infinities and no NaN: it is of operations whose
  results are below \<open>2^1024\<close>.
\<close>

function exponent_up :: "real \<Rightarrow> int" where
  "exponent_up x = (if 2 \<le> x then exponent_up (x / 2) + 1 else 0)"
  by pat_completeness auto
termination
proof (relation "measure (\<lambda>x. nat \<lceil>x\<rceil>)")
  show "wf (measure (\<lambda>x. nat \<lceil>x\<rceil>))" by simp
next
  fix x :: real
  assume a: "2 \<le> x"
  have "x / 2 \<le> x - 1" using a by simp
  then have "\<lceil>x / 2\<rceil> \<le> \<lceil>x - 1\<rceil>" by (rule ceiling_mono)
  then have "\<lceil>x / 2\<rceil> < \<lceil>x\<rceil>" by simp
  moreover have "0 < \<lceil>x\<rceil>" using a by (simp add: ceiling_less_iff less_ceiling_iff)
  ultimately show "(x / 2, x) \<in> measure (\<lambda>x. nat \<lceil>x\<rceil>)" by simp
qed

function exponent_down :: "real \<Rightarrow> int" where
  "exponent_down x = (if 0 < x \<and> x < 1 then exponent_down (x * 2) - 1 else 0)"
  by pat_completeness auto
termination
proof (relation "measure (\<lambda>x. nat \<lceil>1 / x\<rceil>)")
  show "wf (measure (\<lambda>x. nat \<lceil>1 / x\<rceil>))" by simp
next
  fix x :: real
  assume a: "0 < x \<and> x < 1"
  let ?c = "\<lceil>1 / x\<rceil>"
  have "1 < 1 / x" using a by simp
  then have "1 < ?c" by (simp add: less_ceiling_iff)
  then have c: "2 \<le> ?c" by simp
  have "1 / x \<le> of_int ?c" by (rule le_of_int_ceiling)
  then have "1 / (x * 2) \<le> of_int ?c / 2" by simp
  also have "\<dots> \<le> of_int (?c - 1)" using c by simp
  finally have "\<lceil>1 / (x * 2)\<rceil> \<le> ?c - 1" by (rule ceiling_le)
  then have "nat \<lceil>1 / (x * 2)\<rceil> < nat \<lceil>1 / x\<rceil>" using c by linarith
  then show "(x * 2, x) \<in> measure (\<lambda>x. nat \<lceil>1 / x\<rceil>)" by simp
qed

definition binary_exponent :: "real \<Rightarrow> int" where
  "binary_exponent x = (if 1 \<le> \<bar>x\<bar> then exponent_up \<bar>x\<bar> else exponent_down \<bar>x\<bar>)"

definition scale2 :: "real \<Rightarrow> int \<Rightarrow> real" where
  "scale2 x e = (if 0 \<le> e then x * 2 ^ nat e else x / 2 ^ nat (- e))"

definition to_double :: "real \<Rightarrow> real" where
  "to_double x =
     (let e = max (binary_exponent x) (- 1022) - 52
      in scale2 (of_int (round_half_even (scale2 x (- e)))) e)"

text \<open>
  The three float expressions of the calculators. \<open>(days_worked * 100.0) / days_assigned\<close>:
  the days worked, an \<open>int\<close> or a float, are converted and multiplied, then divided by
  the converted norm. \<open>(work_percent / 100.0) * kpi_sum\<close>. \<open>days_assigned - days_worked\<close>
  with a float for the days worked. The conversion of the days worked is the identity on
  a double.
\<close>

definition float_percent :: "real \<Rightarrow> int \<Rightarrow> real" where
  "float_percent days n =
     to_double (to_double (to_double days * 100) / to_double (of_int n))"

definition float_final :: "real \<Rightarrow> real \<Rightarrow> real" where
  "float_final percent ksum = to_double (to_double (percent / 100) * ksum)"

definition float_rest :: "int \<Rightarrow> real \<Rightarrow> real" where
  "float_rest n days = to_double (to_double (of_int n) - to_double days)"

text \<open>
  The value of the optional ``total days worked'' column as the calculators receive it:
  absent (\<open>None\<close>), a value \<open>float(...)\<close> accepts, or a value on which \<open>float(...)\<close>
  raises \<open>ValueError\<close> or \<open>TypeError\<close>.
\<close>

datatype py_total = TotalNone | TotalNum real | TotalBad

section \<open>Data model of the calculators\<close>

text \<open>
  \<open>EmployeeData\<close> is the dataclass of \<open>kpi_calculator_improved.py\<close>; the employee
  dictionaries of \<open>kpi_calculator.py\<close> have the same keys, read through \<open>int(... or 0)\<close>
  and \<open>str(...)\<close>, which are the identity on entries of the right type.
\<close>

record EmployeeData =
  fio :: ustr
  letters_weekday :: int
  letters_sat :: int
  letters_sun :: int
  letters_holiday :: int
  numbers_weekday :: int
  numbers_sat :: int
  numbers_sun :: int
  numbers_holiday :: int
  worked_days_total :: py_total

text \<open>
  One entry of the roster (\<open>kpi_table\<close>), a dictionary with the keys \<open>id\<close>, \<open>fio\<close>,
  \<open>kpiSum\<close>, \<open>scheduleType\<close>, \<open>department\<close> and \<open>categoryCode\<close>.
\<close>

record kpi_item =
  item_id :: int
  item_fio :: ustr
  kpiSum :: real
  scheduleType :: ustr
  item_department :: ustr
  categoryCode :: ustr

record KPIInfo =
  info_id :: int
  info_fio :: ustr
  kpi_sum :: real
  schedule_type :: ustr
  department :: ustr
  category_code :: ustr

text \<open>
  A result row. The sixteen fields of \<open>result_row\<close> are the keys of the result
  dictionary of \<open>kpi_calculator.py\<close>; \<open>KPIResult\<close> of the improved calculator adds the
  department and the category code. The field names carry the prefix \<open>r_\<close> where an
  input record has a field of the same name.
\<close>

record result_row =
  r_fio :: ustr
  r_schedule_type :: ustr
  days_assigned :: int
  days_worked :: real
  not_worked :: real
  r_letters_weekday :: int
  r_letters_sat :: int
  r_letters_sun :: int
  r_letters_holiday :: int
  r_numbers_weekday :: int
  r_numbers_sat :: int
  r_numbers_sun :: int
  r_numbers_holiday :: int
  work_percent :: real
  r_kpi_sum :: real
  kpi_final :: real

record KPIResult = result_row +
  r_department :: ustr
  r_category_code :: ustr

text \<open>
  An error row: the name and the kind. The third field of the source, \<open>details\<close>, is a
  fixed message for each kind and is left out.
\<close>

datatype error_type = DUPLICATE | NO_KPI_MAPPING | STUDENT | INVALID_PLAN | CALCULATION_ERROR

record KPIError =
  e_fio :: ustr
  e_type :: error_type

text \<open>
  The exceptions that occur: \<open>ValueError\<close>, with the reason it is raised for, and
  \<open>OverflowError\<close>.
\<close>

datatype error_reason =
    FormatNotRecognised | HeaderNotFound | FioColumnNotFound | DayRowMissing
  | InvalidIntLiteral | DateOutOfRange

datatype py_exc = ValueError error_reason | OverflowError

section \<open>The improved calculator (\<open>kpi_calculator_improved.py\<close>)\<close>

text \<open>
  \<open>_build_kpi_map\<close>: the roster index, from the lower-cased trimmed name to the entry;
  an entry with an empty name is skipped and a later entry overwrites an earlier one
  with the same key. A blank schedule type becomes \<open>"day"\<close>. The conversions
  \<open>int(...)\<close>, \<open>float(...)\<close> and \<open>str(...)\<close> of the source are the identity on an
  entry of the right types, so the handler that skips an entry on which they fail is
  not entered. The function \<open>calculate_kpi_for_employees\<close> of the same file only
  converts dictionaries to \<open>EmployeeData\<close> and the results back to dictionaries; the
  model is of the method \<open>calculate\<close> it calls.
\<close>

definition build_kpi_map :: "kpi_item list \<Rightarrow> (ustr \<rightharpoonup> KPIInfo)" where
  "build_kpi_map kpi_table =
     fold (\<lambda>item kpi_map.
        let f = strip (item_fio item) in
        if f = [] then kpi_map
        else kpi_map(lower f \<mapsto>
          \<lparr>info_id = item_id item,
           info_fio = f,
           kpi_sum = kpiSum item,
           schedule_type =
             (let s = lower (strip (scheduleType item)) in if s = [] then str_day else s),
           department = strip (item_department item),
           category_code = strip (categoryCode item)\<rparr>))
       kpi_table Map.empty"

text \<open>
  \<open>_calculate_day_kpi\<close>. The result is \<open>None\<close> when the norm is not positive. The
  functions return a sum so that the handler of \<open>calculate\<close> for an exception raised
  during the computation has its place in the model; in the model none is raised. The
  difference \<open>days_assigned - days_worked\<close> is a float operation when the days worked are
  the float of the total-days column, which they are when that lies above 0 and not above
  the norm; otherwise both are integers.
\<close>

definition calculate_day_kpi ::
    "EmployeeData \<Rightarrow> KPIInfo \<Rightarrow> int \<Rightarrow> py_exc + KPIResult option" where
  "calculate_day_kpi emp kpi_info n =
     (if n \<le> 0 then Inr None
      else
        let nw = letters_weekday emp;
            dw0 = (case worked_days_total emp of
                     TotalNum t \<Rightarrow> t
                   | TotalBad \<Rightarrow> of_int (n - nw)
                   | TotalNone \<Rightarrow> of_int (n - nw));
            dw = max 0 (min dw0 (of_int n));
            rest = (case worked_days_total emp of
                      TotalNum t \<Rightarrow>
                        if 0 < t \<and> t \<le> of_int n then float_rest n dw else of_int n - dw
                    | TotalBad \<Rightarrow> of_int n - dw
                    | TotalNone \<Rightarrow> of_int n - dw);
            wp0 = (if 0 < n then float_percent dw n else 0);
            wp = max 0 (min 100 wp0);
            kf = float_final wp (kpi_sum kpi_info)
        in Inr (Some
          \<lparr>r_fio = fio emp,
           r_schedule_type = str_day,
           days_assigned = n,
           days_worked = round2 dw,
           not_worked = max rest 0,
           r_letters_weekday = letters_weekday emp,
           r_letters_sat = letters_sat emp,
           r_letters_sun = letters_sun emp,
           r_letters_holiday = letters_holiday emp,
           r_numbers_weekday = numbers_weekday emp,
           r_numbers_sat = numbers_sat emp,
           r_numbers_sun = numbers_sun emp,
           r_numbers_holiday = numbers_holiday emp,
           work_percent = round2 wp,
           r_kpi_sum = kpi_sum kpi_info,
           kpi_final = round2 kf,
           r_department = department kpi_info,
           r_category_code = category_code kpi_info\<rparr>))"

text \<open>\<open>_calculate_shift_kpi\<close>: the total-days column is not read.\<close>

definition calculate_shift_kpi ::
    "EmployeeData \<Rightarrow> KPIInfo \<Rightarrow> int \<Rightarrow> py_exc + KPIResult option" where
  "calculate_shift_kpi emp kpi_info n =
     (if n \<le> 0 then Inr None
      else
        let effective_not_worked = letters_weekday emp + letters_sat emp;
            dw = max 0 (min (n - effective_not_worked) n);
            wp0 = (if 0 < n then float_percent (of_int dw) n else 0);
            wp = max 0 (min 100 wp0);
            kf = float_final wp (kpi_sum kpi_info)
        in Inr (Some
          \<lparr>r_fio = fio emp,
           r_schedule_type = str_shift,
           days_assigned = n,
           days_worked = round2 (of_int dw),
           not_worked = of_int effective_not_worked,
           r_letters_weekday = letters_weekday emp,
           r_letters_sat = letters_sat emp,
           r_letters_sun = letters_sun emp,
           r_letters_holiday = letters_holiday emp,
           r_numbers_weekday = numbers_weekday emp,
           r_numbers_sat = numbers_sat emp,
           r_numbers_sun = numbers_sun emp,
           r_numbers_holiday = numbers_holiday emp,
           work_percent = round2 wp,
           r_kpi_sum = kpi_sum kpi_info,
           kpi_final = round2 kf,
           r_department = department kpi_info,
           r_category_code = category_code kpi_info\<rparr>))"

text \<open>
  The body of the loop of \<open>calculate\<close>. The state is the list of results, the list of
  errors and the set \<open>seen_fios\<close>. The year, the month and the holidays that the
  constructor of \<open>KPICalculator\<close> stores are not read by \<open>calculate\<close>.
\<close>

type_synonym calc_state = "KPIResult list \<times> KPIError list \<times> ustr set"

definition calculate_step ::
    "(ustr \<rightharpoonup> KPIInfo) \<Rightarrow> int \<Rightarrow> int \<Rightarrow> calc_state \<Rightarrow> EmployeeData \<Rightarrow> calc_state" where
  "calculate_step kpi_map nch_day nd_shift st emp =
     (case st of (results, errors, seen_fios) \<Rightarrow>
        let f = strip (fio emp) in
        if f = [] then st
        else
          let fio_key = lower f in
          if fio_key \<in> seen_fios
          then (results, errors @ [\<lparr>e_fio = f, e_type = DUPLICATE\<rparr>], seen_fios)
          else
            let seen = insert fio_key seen_fios in
            (case kpi_map fio_key of
               None \<Rightarrow> (results, errors @ [\<lparr>e_fio = f, e_type = NO_KPI_MAPPING\<rparr>], seen)
             | Some kpi_info \<Rightarrow>
                 if strip (category_code kpi_info) = str_4
                 then (results, errors @ [\<lparr>e_fio = f, e_type = STUDENT\<rparr>], seen)
                 else
                   (case (if lower (schedule_type kpi_info) = str_day
                          then calculate_day_kpi emp kpi_info nch_day
                          else calculate_shift_kpi emp kpi_info nd_shift) of
                      Inl e \<Rightarrow>
                        (results, errors @ [\<lparr>e_fio = f, e_type = CALCULATION_ERROR\<rparr>], seen)
                    | Inr None \<Rightarrow> (results, errors, seen)
                    | Inr (Some result) \<Rightarrow> (results @ [result], errors, seen))))"

definition calculate ::
    "EmployeeData list \<Rightarrow> kpi_item list \<Rightarrow> int \<Rightarrow> int \<Rightarrow> KPIResult list \<times> KPIError list" where
  "calculate employees kpi_table nch_day nd_shift =
     (case fold (\<lambda>emp st. calculate_step (build_kpi_map kpi_table) nch_day nd_shift st emp)
             employees ([], [], {}) of
        (results, errors, seen_fios) \<Rightarrow> (results, errors))"

section \<open>The first calculator (\<open>kpi_calculator.py\<close>)\<close>

text \<open>
  \<open>calculate_kpi_for_employees\<close> keeps the roster entries themselves in its index and
  computes both branches inside the loop. The two result dictionaries are written as
  \<open>legacy_day_row\<close> and \<open>legacy_shift_row\<close>; the clamps are the \<open>if\<close> statements of the
  source, in their order. Here the days worked are the float of the total-days column when
  that lies between 0 and the norm.
\<close>

definition legacy_kpi_map :: "kpi_item list \<Rightarrow> (ustr \<rightharpoonup> kpi_item)" where
  "legacy_kpi_map kpi_table =
     fold (\<lambda>item kpi_map.
        let k = lower (strip (item_fio item)) in
        if k = [] then kpi_map else kpi_map(k \<mapsto> item))
       kpi_table Map.empty"

definition legacy_day_row :: "ustr \<Rightarrow> EmployeeData \<Rightarrow> real \<Rightarrow> int \<Rightarrow> result_row" where
  "legacy_day_row f emp ksum n =
     (let nw = letters_weekday emp;
          fv0 = (case worked_days_total emp of
                   TotalNum t \<Rightarrow> t
                 | TotalBad \<Rightarrow> of_int (n - nw)
                 | TotalNone \<Rightarrow> of_int (n - nw));
          fv1 = (if fv0 < 0 then 0 else fv0);
          fv = (if of_int n < fv1 then of_int n else fv1);
          rest = (case worked_days_total emp of
                    TotalNum t \<Rightarrow>
                      if 0 \<le> t \<and> t \<le> of_int n then float_rest n fv else of_int n - fv
                  | TotalBad \<Rightarrow> of_int n - fv
                  | TotalNone \<Rightarrow> of_int n - fv);
          wp0 = (if 0 < n then float_percent fv n else 0);
          wp1 = (if 100 < wp0 then 100 else wp0);
          wp = (if wp1 < 0 then 0 else wp1);
          kf = float_final wp ksum
      in \<lparr>r_fio = f,
          r_schedule_type = str_day,
          days_assigned = n,
          days_worked = fv,
          not_worked = max rest 0,
          r_letters_weekday = letters_weekday emp,
          r_letters_sat = letters_sat emp,
          r_letters_sun = letters_sun emp,
          r_letters_holiday = letters_holiday emp,
          r_numbers_weekday = numbers_weekday emp,
          r_numbers_sat = numbers_sat emp,
          r_numbers_sun = numbers_sun emp,
          r_numbers_holiday = numbers_holiday emp,
          work_percent = round2 wp,
          r_kpi_sum = ksum,
          kpi_final = round2 kf\<rparr>)"

definition legacy_shift_row :: "ustr \<Rightarrow> EmployeeData \<Rightarrow> real \<Rightarrow> int \<Rightarrow> result_row" where
  "legacy_shift_row f emp ksum n =
     (let effective_not_worked = letters_weekday emp + letters_sat emp;
          wr0 = n - effective_not_worked;
          wr1 = (if wr0 < 0 then 0 else wr0);
          work_rate = (if n < wr1 then n else wr1);
          wp0 = (if 0 < n then float_percent (of_int work_rate) n else 0);
          wp1 = (if 100 < wp0 then 100 else wp0);
          wp = (if wp1 < 0 then 0 else wp1);
          kf = float_final wp ksum
      in \<lparr>r_fio = f,
          r_schedule_type = str_shift,
          days_assigned = n,
          days_worked = of_int work_rate,
          not_worked = of_int effective_not_worked,
          r_letters_weekday = letters_weekday emp,
          r_letters_sat = letters_sat emp,
          r_letters_sun = letters_sun emp,
          r_letters_holiday = letters_holiday emp,
          r_numbers_weekday = numbers_weekday emp,
          r_numbers_sat = numbers_sat emp,
          r_numbers_sun = numbers_sun emp,
          r_numbers_holiday = numbers_holiday emp,
          work_percent = round2 wp,
          r_kpi_sum = ksum,
          kpi_final = round2 kf\<rparr>)"

type_synonym legacy_state = "result_row list \<times> KPIError list \<times> ustr set"

definition legacy_step ::
    "(ustr \<rightharpoonup> kpi_item) \<Rightarrow> int \<Rightarrow> int \<Rightarrow> legacy_state \<Rightarrow> EmployeeData \<Rightarrow> legacy_state" where
  "legacy_step kpi_map nch_day nd_shift st emp =
     (case st of (results, errors, seen) \<Rightarrow>
        let f = strip (fio emp) in
        if f = [] then st
        else
          let fio_key = lower f in
          if fio_key \<in> seen
          then (results, errors @ [\<lparr>e_fio = f, e_type = DUPLICATE\<rparr>], seen)
          else
            let seen1 = insert fio_key seen in
            (case kpi_map fio_key of
               None \<Rightarrow> (results, errors @ [\<lparr>e_fio = f, e_type = NO_KPI_MAPPING\<rparr>], seen1)
             | Some kpi_info \<Rightarrow>
                 if strip (categoryCode kpi_info) = str_4
                 then (results, errors @ [\<lparr>e_fio = f, e_type = STUDENT\<rparr>], seen1)
                 else
                   let s0 = lower (strip (scheduleType kpi_info));
                       s = (if s0 = str_day \<or> s0 = str_shift then s0 else str_day)
                   in
                   if s = str_day then
                     (if nch_day \<le> 0
                      then (results, errors @ [\<lparr>e_fio = f, e_type = INVALID_PLAN\<rparr>], seen1)
                      else (results @ [legacy_day_row f emp (kpiSum kpi_info) nch_day],
                            errors, seen1))
                   else
                     (if nd_shift \<le> 0
                      then (results, errors @ [\<lparr>e_fio = f, e_type = INVALID_PLAN\<rparr>], seen1)
                      else (results @ [legacy_shift_row f emp (kpiSum kpi_info) nd_shift],
                            errors, seen1))))"

definition calculate_kpi_for_employees ::
    "EmployeeData list \<Rightarrow> kpi_item list \<Rightarrow> int \<Rightarrow> int \<Rightarrow> result_row list \<times> KPIError list" where
  "calculate_kpi_for_employees employees kpi_table nch_day nd_shift =
     (case fold (\<lambda>emp st. legacy_step (legacy_kpi_map kpi_table) nch_day nd_shift st emp)
             employees ([], [], {}) of
        (results, errors, seen) \<Rightarrow> (results, errors))"

section \<open>The timesheet parser (\<open>timesheet_parser.py\<close>)\<close>

subsection \<open>\<open>datetime.date\<close>\<close>

text \<open>
  The constructor \<open>date(year, month, day)\<close> of CPython converts its three arguments to
  the C type \<open>int\<close> first and raises \<open>OverflowError\<close> for an argument outside
  \<open>[-2^31, 2^31 - 1]\<close>; inside that range it raises \<open>ValueError\<close> unless
  \<open>1 \<le> year \<le> 9999\<close>, \<open>1 \<le> month \<le> 12\<close> and \<open>1 \<le> day \<le>\<close> the number of days
  of that month. \<open>weekday()\<close> is 0 for Monday up to 6 for Sunday; it is computed from the
  proleptic Gregorian ordinal, on which day 1 (1 January of year 1) is a Monday. The
  number of days before a month is read from a table, which \<open>weekday\<close> indexes with a
  month between 1 and 12 only, as it is applied to constructed dates.
\<close>

definition in_c_int :: "int \<Rightarrow> bool" where
  "in_c_int v = (- 2147483648 \<le> v \<and> v \<le> 2147483647)"

definition is_leap :: "int \<Rightarrow> bool" where
  "is_leap y = (if y mod 4 = 0 then (if y mod 100 = 0 then y mod 400 = 0 else True) else False)"

definition days_in_month :: "int \<Rightarrow> int \<Rightarrow> int" where
  "days_in_month y m =
     (if m = 2 then (if is_leap y then 29 else 28)
      else if m = 4 \<or> m = 6 \<or> m = 9 \<or> m = 11 then 30 else 31)"

definition valid_date :: "int \<Rightarrow> int \<Rightarrow> int \<Rightarrow> bool" where
  "valid_date y m d =
     (1 \<le> y \<and> y \<le> 9999 \<and> 1 \<le> m \<and> m \<le> 12 \<and> 1 \<le> d \<and> d \<le> days_in_month y m)"

definition date :: "int \<Rightarrow> int \<Rightarrow> int \<Rightarrow> py_exc + (int \<times> int \<times> int)" where
  "date y m d =
     (if in_c_int y \<and> in_c_int m \<and> in_c_int d
      then (if valid_date y m d then Inr (y, m, d) else Inl (ValueError DateOutOfRange))
      else Inl OverflowError)"

definition days_before_year :: "int \<Rightarrow> int" where
  "days_before_year y = (y - 1) * 365 + (y - 1) div 4 - (y - 1) div 100 + (y - 1) div 400"

definition days_before_month :: "int \<Rightarrow> int \<Rightarrow> int" where
  "days_before_month y m =
     [0, 31, 59, 90, 120, 151, 181, 212, 243, 273, 304, 334] ! nat (m - 1) +
     (if 2 < m \<and> is_leap y then 1 else 0)"

definition weekday :: "int \<times> int \<times> int \<Rightarrow> int" where
  "weekday dt =
     (case dt of (y, m, d) \<Rightarrow> (days_before_year y + days_before_month y m + d + 6) mod 7)"

subsection \<open>\<open>_classify_day\<close>\<close>

datatype day_type = Weekday | Sat | Sun | Holiday

text \<open>
  The handler of \<open>_classify_day\<close> catches \<open>ValueError\<close> only, so an \<open>OverflowError\<close>
  of the constructor leaves the function.
\<close>

definition classify_day :: "int \<Rightarrow> int \<Rightarrow> int \<Rightarrow> int set \<Rightarrow> py_exc + day_type" where
  "classify_day year month day_num holiday_days =
     (if day_num \<in> holiday_days then Inr Holiday
      else
        (case date year month day_num of
           Inl (ValueError reason) \<Rightarrow> Inr Weekday
         | Inl OverflowError \<Rightarrow> Inl OverflowError
         | Inr dt \<Rightarrow>
             let wd = weekday dt in
             if wd = 5 then Inr Sat
             else if wd = 6 then Inr Sun
             else Inr Weekday))"

subsection \<open>Cells and frames\<close>

text \<open>
  A cell of a frame that \<open>pandas\<close> has read. The parser looks at a cell in four ways:
  is it \<open>None\<close>, is it the float \<open>NaN\<close> (a blank cell), is it a \<open>str\<close>, and what is
  \<open>str(v)\<close>. \<open>CObj s\<close> is any other value (a number, a date), given by its \<open>str\<close>.
\<close>

datatype cell = CNone | CNaN | CStr ustr | CObj ustr

fun str_of :: "cell \<Rightarrow> ustr" where
  "str_of CNone = [78, 111, 110, 101]"
| "str_of CNaN = [110, 97, 110]"
| "str_of (CStr s) = s"
| "str_of (CObj s) = s"

fun is_missing :: "cell \<Rightarrow> bool" where
  "is_missing CNone = True"
| "is_missing CNaN = True"
| "is_missing (CStr s) = False"
| "is_missing (CObj s) = False"

text \<open>
  The frame read with \<open>header=None\<close> is the list of its rows, its columns labelled
  \<open>0, 1, ...\<close>; the frame read with the first row as header has column labels and rows.
  \<open>row.get(col, None)\<close> is \<open>row_get\<close>.
\<close>

type_synonym frame = "cell list list"

record headed_frame =
  columns :: "cell list"
  data_rows :: "cell list list"

definition row_get :: "cell list \<Rightarrow> nat \<Rightarrow> cell" where
  "row_get row col = (if col < length row then row ! col else CNone)"

text \<open>
  The literal markers: the name header of the first layout, the employee column of the
  second, the header of the total-days column, and \<open>"-"\<close>.
\<close>

definition kz_header :: ustr where
  "kz_header = [1040, 1058, 1067, 45, 1078, 1257, 1085, 1110, 32, 40, 1090, 1086, 1083,
     1099, 1171, 1099, 1084, 1077, 1085, 41]"

definition employee_column :: ustr where
  "employee_column = [1057, 1086, 1090, 1088, 1091, 1076, 1085, 1080, 1082]"

definition total_marker :: ustr where
  "total_marker = [1257, 1090, 1077, 1083, 1075, 1077, 1085, 32, 1082, 1199, 1085, 1076,
     1077, 1088, 32, 1078, 1080, 1099, 1085, 1090, 1099, 1171, 1099]"

definition str_dash :: ustr where
  "str_dash = [45]"

text \<open>
  \<open>s.upper() == "B"\<close> with the Cyrillic letter Ve (U+0412): the strings whose upper case
  is that single letter are the letter itself, its small form and U+1C80.
\<close>

definition upper_is_ve :: "ustr \<Rightarrow> bool" where
  "upper_is_ve s = (s = [1042] \<or> s = [1074] \<or> s = [7296])"

subsection \<open>Numbers in cells\<close>

text \<open>
  \<open>str.isdigit\<close> and \<open>int\<close> on code points up to U+00FF: the ten decimal digits, and the
  superscripts U+00B2, U+00B3 and U+00B9, which \<open>isdigit\<close> accepts and \<open>int\<close> rejects
  with \<open>ValueError\<close>.
\<close>

definition is_ascii_digit :: "nat \<Rightarrow> bool" where
  "is_ascii_digit c = (48 \<le> c \<and> c \<le> 57)"

definition isdigit :: "ustr \<Rightarrow> bool" where
  "isdigit s = (s \<noteq> [] \<and> list_all (\<lambda>c. is_ascii_digit c \<or> c = 178 \<or> c = 179 \<or> c = 185) s)"

definition digits_value :: "ustr \<Rightarrow> nat" where
  "digits_value s = foldl (\<lambda>a c. 10 * a + (c - 48)) 0 s"

definition int_of_digits :: "ustr \<Rightarrow> py_exc + int" where
  "int_of_digits s =
     (if list_all is_ascii_digit s then Inr (int (digits_value s))
      else Inl (ValueError InvalidIntLiteral))"

text \<open>
  \<open>float(s)\<close> on a string: the decimal literals, an optional sign, digits with an
  optional point, an optional exponent. The spellings of infinity and NaN, digit groups
  with underscores and digits outside ASCII are not covered; the model gives \<open>None\<close>,
  the value of \<open>_try_float\<close> when \<open>float\<close> raises. The value is the decimal that
  was read; \<open>float\<close> returns the double nearest to it, which is the decimal itself for
  a whole number of days, and the float expressions of the calculators convert
  their operands.
\<close>

definition split_sign :: "ustr \<Rightarrow> int \<times> ustr" where
  "split_sign s =
     (case s of
        [] \<Rightarrow> (1, [])
      | c # r \<Rightarrow> if c = 45 then (- 1, r) else if c = 43 then (1, r) else (1, s))"

definition scale10 :: "real \<Rightarrow> int \<Rightarrow> real" where
  "scale10 x e = (if 0 \<le> e then x * 10 ^ nat e else x / 10 ^ nat (- e))"

definition py_float :: "ustr \<Rightarrow> real option" where
  "py_float s =
     (case split_sign s of (sg, body) \<Rightarrow>
        let mant = takeWhile (\<lambda>c. c \<noteq> 101 \<and> c \<noteq> 69) body;
            expo = dropWhile (\<lambda>c. c \<noteq> 101 \<and> c \<noteq> 69) body;
            ip = takeWhile is_ascii_digit mant;
            rest = dropWhile is_ascii_digit mant;
            fp = tl rest;
            mant_ok = (list_all (\<lambda>c. c = 46) (take 1 rest) \<and> list_all is_ascii_digit fp \<and>
                       ip @ fp \<noteq> []);
            ed = snd (split_sign (tl expo));
            exp_ok = (if expo = [] then True else ed \<noteq> [] \<and> list_all is_ascii_digit ed);
            e = (if expo = [] then 0 else fst (split_sign (tl expo)) * int (digits_value ed))
                - int (length fp)
        in if mant_ok \<and> exp_ok
           then Some (scale10 (of_int sg * of_nat (digits_value (ip @ fp))) e)
           else None)"

text \<open>\<open>_try_float\<close>; the comma is read as the decimal point.\<close>

definition try_float :: "cell \<Rightarrow> real option" where
  "try_float v =
     (if is_missing v then None
      else
        let s = map (\<lambda>c. if c = 44 then 46 else c) (strip (str_of v)) in
        if s = [] then None else py_float s)"

subsection \<open>The two layouts\<close>

fun find_first :: "('a \<Rightarrow> bool) \<Rightarrow> 'a list \<Rightarrow> nat option" where
  "find_first P [] = None"
| "find_first P (x # xs) = (if P x then Some 0 else map_option Suc (find_first P xs))"

definition has_kz_header :: "frame \<Rightarrow> bool" where
  "has_kz_header df = list_ex (\<lambda>row. list_ex (\<lambda>v. strip (str_of v) = kz_header) row) df"

text \<open>
  \<open>_find_cell\<close>: the rows of \<open>search_rows\<close> that the frame has are searched in order,
  each from its first column, for a cell that is a \<open>str\<close> and equals the text after
  trimming and lower-casing.
\<close>

fun is_text :: "ustr \<Rightarrow> cell \<Rightarrow> bool" where
  "is_text target (CStr v) = (lower (strip v) = target)"
| "is_text target (CObj v) = False"
| "is_text target CNaN = False"
| "is_text target CNone = False"

fun find_cell_rows :: "frame \<Rightarrow> ustr \<Rightarrow> nat list \<Rightarrow> (nat \<times> nat) option" where
  "find_cell_rows df target [] = None"
| "find_cell_rows df target (r # search_rows) =
     (if r < length df then
        (case find_first (is_text target) (df ! r) of
           Some c \<Rightarrow> Some (r, c)
         | None \<Rightarrow> find_cell_rows df target search_rows)
      else find_cell_rows df target search_rows)"

definition find_cell :: "frame \<Rightarrow> ustr \<Rightarrow> nat list \<Rightarrow> (nat \<times> nat) option" where
  "find_cell df text search_rows = find_cell_rows df (lower (strip text)) search_rows"

text \<open>
  The day columns: the pairs of a column and its day number. \<open>label\<close> selects the
  header cells that are day labels; \<open>int\<close> is applied to each of them.
\<close>

fun day_columns :: "(cell \<Rightarrow> ustr option) \<Rightarrow> (nat \<times> cell) list \<Rightarrow> py_exc + (nat \<times> int) list" where
  "day_columns label [] = Inr []"
| "day_columns label ((col, v) # rest) =
     (case label v of
        None \<Rightarrow> day_columns label rest
      | Some s \<Rightarrow>
          (case int_of_digits s of
             Inl e \<Rightarrow> Inl e
           | Inr n \<Rightarrow>
               (case day_columns label rest of
                  Inl e \<Rightarrow> Inl e
                | Inr cols \<Rightarrow> Inr ((col, n) # cols))))"

definition kz_day_label :: "cell \<Rightarrow> ustr option" where
  "kz_day_label v = (let s = strip (str_of v) in if isdigit s then Some s else None)"

definition simple_day_label :: "cell \<Rightarrow> ustr option" where
  "simple_day_label v =
     (case v of
        CStr c \<Rightarrow> if length c = 2 \<and> isdigit c then Some c else None
      | CObj c \<Rightarrow> None
      | CNaN \<Rightarrow> None
      | CNone \<Rightarrow> None)"

text \<open>The eight counters of one employee, and the increment for one populated cell.\<close>

definition new_employee :: "ustr \<Rightarrow> EmployeeData" where
  "new_employee f =
     \<lparr>fio = f, letters_weekday = 0, letters_sat = 0, letters_sun = 0, letters_holiday = 0,
      numbers_weekday = 0, numbers_sat = 0, numbers_sun = 0, numbers_holiday = 0,
      worked_days_total = TotalNone\<rparr>"

definition count_cell :: "day_type \<Rightarrow> bool \<Rightarrow> EmployeeData \<Rightarrow> EmployeeData" where
  "count_cell dt is_number emp =
     (if is_number then
        (case dt of
           Weekday \<Rightarrow> emp\<lparr>numbers_weekday := numbers_weekday emp + 1\<rparr>
         | Sat \<Rightarrow> emp\<lparr>numbers_sat := numbers_sat emp + 1\<rparr>
         | Sun \<Rightarrow> emp\<lparr>numbers_sun := numbers_sun emp + 1\<rparr>
         | Holiday \<Rightarrow> emp\<lparr>numbers_holiday := numbers_holiday emp + 1\<rparr>)
      else
        (case dt of
           Weekday \<Rightarrow> emp\<lparr>letters_weekday := letters_weekday emp + 1\<rparr>
         | Sat \<Rightarrow> emp\<lparr>letters_sat := letters_sat emp + 1\<rparr>
         | Sun \<Rightarrow> emp\<lparr>letters_sun := letters_sun emp + 1\<rparr>
         | Holiday \<Rightarrow> emp\<lparr>letters_holiday := letters_holiday emp + 1\<rparr>))"

fun count_cells ::
    "int \<Rightarrow> int \<Rightarrow> int set \<Rightarrow> cell list \<Rightarrow> (nat \<times> int) list \<Rightarrow> EmployeeData \<Rightarrow> py_exc + EmployeeData" where
  "count_cells year month holiday_days row [] emp = Inr emp"
| "count_cells year month holiday_days row ((col, day_num) # day_cols) emp =
     (let v = row_get row col in
      if is_missing v then count_cells year month holiday_days row day_cols emp
      else
        let val_str = strip (str_of v) in
        if val_str = [] \<or> val_str = str_dash \<or> upper_is_ve val_str
        then count_cells year month holiday_days row day_cols emp
        else
          (case classify_day year month day_num holiday_days of
             Inl e \<Rightarrow> Inl e
           | Inr dt \<Rightarrow>
               count_cells year month holiday_days row day_cols
                 (count_cell dt (try_float (CStr val_str) \<noteq> None) emp)))"

fun parse_rows ::
    "(cell list \<Rightarrow> py_exc + EmployeeData option) \<Rightarrow> cell list list \<Rightarrow> py_exc + EmployeeData list" where
  "parse_rows f [] = Inr []"
| "parse_rows f (row # rest) =
     (case f row of
        Inl e \<Rightarrow> Inl e
      | Inr r \<Rightarrow>
          (case parse_rows f rest of
             Inl e \<Rightarrow> Inl e
           | Inr employees \<Rightarrow>
               Inr (case r of None \<Rightarrow> employees | Some emp \<Rightarrow> emp # employees)))"

definition kz_row ::
    "int \<Rightarrow> int \<Rightarrow> int set \<Rightarrow> nat \<Rightarrow> (nat \<times> int) list \<Rightarrow> nat option \<Rightarrow> cell list
       \<Rightarrow> py_exc + EmployeeData option" where
  "kz_row year month holiday_days fio_col day_cols total_days_col row =
     (let fio_raw = row_get row fio_col in
      if is_missing fio_raw then Inr None
      else
        let f = strip (str_of fio_raw) in
        if f = [] \<or> f = kz_header then Inr None
        else
          (case count_cells year month holiday_days row day_cols (new_employee f) of
             Inl e \<Rightarrow> Inl e
           | Inr emp \<Rightarrow>
               Inr (Some (emp\<lparr>worked_days_total :=
                 (case total_days_col of
                    None \<Rightarrow> TotalNone
                  | Some c \<Rightarrow>
                      (case try_float (row_get row c) of
                         None \<Rightarrow> TotalNone
                       | Some x \<Rightarrow> TotalNum x))\<rparr>))))"

definition parse_kz_template :: "frame \<Rightarrow> int \<Rightarrow> int \<Rightarrow> int set \<Rightarrow> py_exc + EmployeeData list" where
  "parse_kz_template df year month holiday_days =
     (case find_first (list_ex (\<lambda>v. strip (str_of v) = kz_header)) df of
        None \<Rightarrow> Inl (ValueError HeaderNotFound)
      | Some header_row_idx \<Rightarrow>
          (case find_first (\<lambda>v. strip (str_of v) = kz_header) (df ! header_row_idx) of
             None \<Rightarrow> Inl (ValueError FioColumnNotFound)
           | Some fio_col \<Rightarrow>
               let day_header_idx = header_row_idx + 1 in
               if day_header_idx < length df then
                 (case day_columns kz_day_label (enumerate 0 (df ! day_header_idx)) of
                    Inl e \<Rightarrow> Inl e
                  | Inr day_cols \<Rightarrow>
                      let found = find_cell df total_marker
                                    [header_row_idx - 2 ..< header_row_idx + 5];
                          total_days_col = map_option snd found
                      in parse_rows
                           (kz_row year month holiday_days fio_col day_cols total_days_col)
                           (drop (day_header_idx + 1) df))
               else Inl (ValueError DayRowMissing)))"

definition simple_row ::
    "int \<Rightarrow> int \<Rightarrow> int set \<Rightarrow> nat option \<Rightarrow> (nat \<times> int) list \<Rightarrow> cell list
       \<Rightarrow> py_exc + EmployeeData option" where
  "simple_row year month holiday_days fio_col day_cols row =
     (let f = strip (case fio_col of None \<Rightarrow> [] | Some c \<Rightarrow> str_of (row_get row c)) in
      if f = [] then Inr None
      else
        (case count_cells year month holiday_days row day_cols (new_employee f) of
           Inl e \<Rightarrow> Inl e
         | Inr emp \<Rightarrow> Inr (Some emp)))"

definition parse_simple_template ::
    "headed_frame \<Rightarrow> int \<Rightarrow> int \<Rightarrow> int set \<Rightarrow> py_exc + EmployeeData list" where
  "parse_simple_template df year month holiday_days =
     (case day_columns simple_day_label (enumerate 0 (columns df)) of
        Inl e \<Rightarrow> Inl e
      | Inr day_cols \<Rightarrow>
          parse_rows
            (simple_row year month holiday_days
               (find_first (\<lambda>c. c = CStr employee_column) (columns df)) day_cols)
            (data_rows df))"

text \<open>
  \<open>parse_timesheet_from_excel\<close>. The file is read twice: \<open>df\<close> without a header row
  and, when \<open>df\<close> has no name header, \<open>df2\<close> with the first row as the header row. The
  set of holidays is the one \<open>_normalize_holidays\<close> returns.
\<close>

definition parse_timesheet_from_excel ::
    "frame \<Rightarrow> headed_frame \<Rightarrow> int \<Rightarrow> int \<Rightarrow> int set \<Rightarrow> py_exc + EmployeeData list" where
  "parse_timesheet_from_excel df df2 year month holiday_days =
     (if has_kz_header df then parse_kz_template df year month holiday_days
      else if CStr employee_column \<in> set (columns df2)
      then parse_simple_template df2 year month holiday_days
      else Inl (ValueError FormatNotRecognised))"

section \<open>Notions used in the statements\<close>

text \<open>
  A record reaches the schedule branch of the loop when its trimmed name is not empty,
  the name has not been seen in this run, the roster index has an entry for it and the
  entry is not a student. \<open>cat\<close> reads the category code of an entry of the index
  (\<open>category_code\<close> for the improved calculator, \<open>categoryCode\<close> for the first one).
\<close>

definition reaches_branch ::
    "(ustr \<rightharpoonup> 'a) \<Rightarrow> ('a \<Rightarrow> ustr) \<Rightarrow> ustr set \<Rightarrow> EmployeeData \<Rightarrow> 'a \<Rightarrow> bool" where
  "reaches_branch kpi_map cat seen emp entry =
     (strip (fio emp) \<noteq> [] \<and> lower (strip (fio emp)) \<notin> seen \<and>
      kpi_map (lower (strip (fio emp))) = Some entry \<and> strip (cat entry) \<noteq> str_4)"

text \<open>
  The key under which the loops compare names (\<open>fio_key\<close>), and the keys of the rows of
  an output: of every result and of every error that is not of kind \<open>DUPLICATE\<close>.
\<close>

definition name_key :: "ustr \<Rightarrow> ustr" where
  "name_key s = lower (strip s)"

definition output_keys :: "'a result_row_scheme list \<Rightarrow> KPIError list \<Rightarrow> ustr list" where
  "output_keys results errors =
     map (\<lambda>r. name_key (r_fio r)) results @
     map (\<lambda>e. name_key (e_fio e)) (filter (\<lambda>e. e_type e \<noteq> DUPLICATE) errors)"

text \<open>
  The days worked of an employee before they are rounded, in the day branch and in the
  shift branch, and the percentage before it is rounded: the float percentage of the days
  worked, clamped to between 0 and 100.
\<close>

definition day_days :: "EmployeeData \<Rightarrow> int \<Rightarrow> real" where
  "day_days emp n =
     max 0 (min (case worked_days_total emp of
                   TotalNum t \<Rightarrow> t
                 | TotalBad \<Rightarrow> of_int (n - letters_weekday emp)
                 | TotalNone \<Rightarrow> of_int (n - letters_weekday emp)) (of_int n))"

definition shift_days :: "EmployeeData \<Rightarrow> int \<Rightarrow> real" where
  "shift_days emp n = of_int (max 0 (min (n - (letters_weekday emp + letters_sat emp)) n))"

definition unrounded_percent :: "real \<Rightarrow> int \<Rightarrow> real" where
  "unrounded_percent days n = max 0 (min 100 (float_percent days n))"



text \<open>
  The percentage and the final amount of a row come from one percentage \<open>p\<close> between 0
  and 100: the reported percentage is \<open>p\<close> rounded, the final amount is the rounded
  float share \<open>p / 100\<close> of the entitlement.
\<close>

definition percent_ok :: "'a result_row_scheme \<Rightarrow> bool" where
  "percent_ok r =
     (0 \<le> work_percent r \<and> work_percent r \<le> 100 \<and>
      (\<exists>p. 0 \<le> p \<and> p \<le> 100 \<and> work_percent r = round2 p \<and>
           kpi_final r = round2 (float_final p (r_kpi_sum r))))"

text \<open>The invariant of both loops.\<close>

definition loop_inv :: "'a result_row_scheme list \<times> KPIError list \<times> ustr set \<Rightarrow> bool" where
  "loop_inv st =
     (case st of (results, errors, seen) \<Rightarrow>
        list_all percent_ok results \<and> distinct (output_keys results errors) \<and>
        set (output_keys results errors) \<subseteq> seen)"

section \<open>Concrete inputs\<close>

text \<open>
  An employee \<open>"a"\<close> with two absences on weekdays and one on a Saturday, the same name
  written \<open>" A "\<close>, and roster entries for \<open>"A"\<close> with an entitlement of 15000: on the day
  schedule, on the shift schedule, and with the schedule type \<open>"night"\<close>.
\<close>

definition emp_a :: EmployeeData where
  "emp_a = \<lparr>fio = [97], letters_weekday = 2, letters_sat = 1, letters_sun = 0,
     letters_holiday = 0, numbers_weekday = 20, numbers_sat = 0, numbers_sun = 0,
     numbers_holiday = 0, worked_days_total = TotalNone\<rparr>"

definition emp_a_again :: EmployeeData where
  "emp_a_again = \<lparr>fio = [32, 65, 32], letters_weekday = 0, letters_sat = 0, letters_sun = 0,
     letters_holiday = 0, numbers_weekday = 22, numbers_sat = 0, numbers_sun = 0,
     numbers_holiday = 0, worked_days_total = TotalNone\<rparr>"

definition item_a :: kpi_item where
  "item_a = \<lparr>item_id = 1, item_fio = [65], kpiSum = 15000, scheduleType = str_day,
     item_department = [], categoryCode = []\<rparr>"


definition item_shift :: kpi_item where
  "item_shift = \<lparr>item_id = 1, item_fio = [65], kpiSum = 15000, scheduleType = str_shift,
     item_department = [], categoryCode = []\<rparr>"

definition info_shift :: KPIInfo where
  "info_shift = \<lparr>info_id = 1, info_fio = [65], kpi_sum = 15000, schedule_type = str_shift,
     department = [], category_code = []\<rparr>"

definition item_night :: kpi_item where
  "item_night = \<lparr>item_id = 1, item_fio = [65], kpiSum = 15000,
     scheduleType = [110, 105, 103, 104, 116], item_department = [], categoryCode = []\<rparr>"






text \<open>
  Employees \<open>"a"\<close>: with four letters on Sundays only (and a total-days column of 12);
  with a total-days column of 20 and five absences on weekdays; with a total-days column
  of 10.126; with 20 absences on weekdays and 15 on Saturdays.
\<close>

definition emp_sunday :: EmployeeData where
  "emp_sunday = \<lparr>fio = [97], letters_weekday = 0, letters_sat = 0, letters_sun = 4,
     letters_holiday = 0, numbers_weekday = 22, numbers_sat = 4, numbers_sun = 0,
     numbers_holiday = 0, worked_days_total = TotalNum 12\<rparr>"




text \<open>
  Grids: one with a single cell \<open>"x"\<close>; one of the first layout whose row of day numbers
  holds \<open>2147483648\<close>; one of the first layout for December 2025 with the days 1, 2 and 6
  (a Monday, a Tuesday and a Saturday) and a total-days column; its employee \<open>"Ab"\<close> has
  the cells \<open>8\<close>, a letter, \<open>"8,5"\<close> and a total of 20.
\<close>

definition plain_grid :: frame where
  "plain_grid = [[CStr [120]]]"

definition plain_frame :: headed_frame where
  "plain_frame = \<lparr>columns = [CStr [120]], data_rows = []\<rparr>"

definition overflow_grid :: frame where
  "overflow_grid =
     [[CStr kz_header, CNaN],
      [CNaN, CObj [50, 49, 52, 55, 52, 56, 51, 54, 52, 56]],
      [CStr [65, 98], CObj [56]]]"

definition sample_header_row :: "cell list" where
  "sample_header_row = [CStr kz_header, CNaN, CNaN, CNaN, CStr total_marker]"

definition sample_day_row :: "cell list" where
  "sample_day_row = [CNaN, CObj [49], CObj [50], CObj [54], CNaN]"

definition sample_employee_row :: "cell list" where
  "sample_employee_row = [CStr [65, 98], CObj [56], CStr [1041], CStr [56, 44, 53], CObj [50, 48]]"

definition sample_grid :: frame where
  "sample_grid =
     [[CStr [84], CNaN, CNaN, CNaN, CNaN],
      sample_header_row, sample_day_row, sample_employee_row]"

section \<open>Unfolding the model on concrete inputs\<close>

lemmas str_defs = strip_def isspace_def lower_def lower_cp_def str_day_def str_shift_def str_4_def

lemmas calc_defs = calculate_def calculate_step_def build_kpi_map_def calculate_day_kpi_def
  calculate_shift_kpi_def calculate_kpi_for_employees_def legacy_step_def legacy_kpi_map_def
  legacy_day_row_def legacy_shift_row_def round2_def round_half_even_def Let_def


lemmas date_defs = classify_day_def date_def in_c_int_def valid_date_def days_in_month_def
  is_leap_def weekday_def days_before_year_def days_before_month_def

lemmas parse_defs = parse_timesheet_from_excel_def has_kz_header_def parse_kz_template_def
  parse_simple_template_def kz_row_def simple_row_def find_cell_def kz_day_label_def
  simple_day_label_def new_employee_def count_cell_def try_float_def py_float_def split_sign_def
  scale10_def int_of_digits_def digits_value_def isdigit_def is_ascii_digit_def upper_is_ve_def
  str_dash_def row_get_def kz_header_def employee_column_def total_marker_def enumerate_eq_zip

section \<open>Rounding\<close>

lemma round_half_even_of_int: "round_half_even (of_int n) = n"
  by (simp add: round_half_even_def)

lemma round2_of_int: "round2 (of_int n) = of_int n"
proof -
  have "(of_int n :: real) * 100 = of_int (n * 100)" by simp
  then have "round_half_even (of_int n * 100) = n * 100"
    using round_half_even_of_int by metis
  then show ?thesis by (simp add: round2_def)
qed

lemma round_half_even_lower: "of_int a \<le> y \<Longrightarrow> a \<le> round_half_even y"
proof -
  assume "of_int a \<le> y"
  then have "a \<le> \<lfloor>y\<rfloor>" by (simp add: le_floor_iff)
  then show ?thesis by (auto simp: round_half_even_def Let_def)
qed

lemma round_half_even_upper: "y \<le> of_int b \<Longrightarrow> round_half_even y \<le> b"
proof -
  assume h: "y \<le> of_int b"
  then have fb: "\<lfloor>y\<rfloor> \<le> b" using floor_mono[OF h] by simp
  show ?thesis
  proof (cases "\<lfloor>y\<rfloor> = b")
    case True
    then have "y - of_int \<lfloor>y\<rfloor> \<le> 0" using h by simp
    then show ?thesis using True by (simp add: round_half_even_def Let_def)
  next
    case False
    then have "\<lfloor>y\<rfloor> + 1 \<le> b" using fb by simp
    then show ?thesis using fb by (auto simp: round_half_even_def Let_def)
  qed
qed

lemma round2_bounds: "0 \<le> x \<Longrightarrow> x \<le> 100 \<Longrightarrow> 0 \<le> round2 x \<and> round2 x \<le> 100"
proof -
  assume a: "0 \<le> x" and b: "x \<le> 100"
  have "of_int 0 \<le> x * 100" using a by simp
  then have l: "0 \<le> round_half_even (x * 100)" by (rule round_half_even_lower)
  have "x * 100 \<le> of_int 10000" using b by simp
  then have u: "round_half_even (x * 100) \<le> 10000" by (rule round_half_even_upper)
  have "round2 x \<le> 100"
    using u by (simp add: round2_def divide_le_eq) 
  moreover have "0 \<le> round2 x" using l by (simp add: round2_def)
  ultimately show ?thesis by simp
qed

section \<open>Doubles\<close>








lemma exact_share_23_24: "(23 * 100 / 24 / 100 * 15003 :: real) = 14377875 / 1000"
  by simp

lemma unrounded_percent_bounds: "0 \<le> unrounded_percent days n \<and> unrounded_percent days n \<le> 100"
  by (simp add: unrounded_percent_def)

lemma clamp_if_chain:
  "(if (if 100 < x then 100 else x) < 0 then 0 else (if 100 < x then 100 else x))
     = max 0 (min 100 (x::real))"
  by (simp add: max_def min_def)

lemma clamp_days_if_chain:
  "0 < n \<Longrightarrow>
   (if of_int n < (if x < 0 then 0 else x) then of_int n else (if x < 0 then 0 else x))
     = max 0 (min (x::real) (of_int n))"
  by (simp add: max_def min_def)

section \<open>One pass through the loop body\<close>

lemma calculate_step_branch:
  "reaches_branch kpi_map category_code seen emp kpi_info \<Longrightarrow>
   calculate_step kpi_map nch_day nd_shift (results, errors, seen) emp =
     (case (if lower (schedule_type kpi_info) = str_day
            then calculate_day_kpi emp kpi_info nch_day
            else calculate_shift_kpi emp kpi_info nd_shift) of
        Inl e \<Rightarrow> (results, errors @ [\<lparr>e_fio = strip (fio emp), e_type = CALCULATION_ERROR\<rparr>],
                  insert (lower (strip (fio emp))) seen)
      | Inr None \<Rightarrow> (results, errors, insert (lower (strip (fio emp))) seen)
      | Inr (Some r) \<Rightarrow> (results @ [r], errors, insert (lower (strip (fio emp))) seen))"
  by (simp add: calculate_step_def reaches_branch_def Let_def)

lemma legacy_step_branch:
  "reaches_branch kpi_map categoryCode seen emp item \<Longrightarrow>
   legacy_step kpi_map nch_day nd_shift (results, errors, seen) emp =
     (if lower (strip (scheduleType item)) = str_shift
      then (if nd_shift \<le> 0
            then (results, errors @ [\<lparr>e_fio = strip (fio emp), e_type = INVALID_PLAN\<rparr>],
                  insert (lower (strip (fio emp))) seen)
            else (results @ [legacy_shift_row (strip (fio emp)) emp (kpiSum item) nd_shift],
                  errors, insert (lower (strip (fio emp))) seen))
      else (if nch_day \<le> 0
            then (results, errors @ [\<lparr>e_fio = strip (fio emp), e_type = INVALID_PLAN\<rparr>],
                  insert (lower (strip (fio emp))) seen)
            else (results @ [legacy_day_row (strip (fio emp)) emp (kpiSum item) nch_day],
                  errors, insert (lower (strip (fio emp))) seen)))"
  by (simp add: legacy_step_def reaches_branch_def Let_def str_day_def str_shift_def)

lemma calculate_shift_kpi_fields:
  assumes "0 < n"
  shows "\<exists>r. calculate_shift_kpi emp kpi_info n = Inr (Some r) \<and>
           days_assigned r = n \<and>
           days_worked r = of_int (max 0 (min (n - (letters_weekday emp + letters_sat emp)) n)) \<and>
           not_worked r = of_int (letters_weekday emp + letters_sat emp) \<and>
           work_percent r = round2 (unrounded_percent (shift_days emp n) n) \<and>
           kpi_final r =
             round2 (float_final (unrounded_percent (shift_days emp n) n) (kpi_sum kpi_info)) \<and>
           r_kpi_sum r = kpi_sum kpi_info \<and> r_fio r = fio emp"
  using assms
  by (simp add: calculate_shift_kpi_def Let_def round2_of_int unrounded_percent_def
      shift_days_def)

lemma legacy_shift_row_fields:
  assumes "0 < n"
  shows "days_assigned (legacy_shift_row f emp ksum n) = n \<and>
         days_worked (legacy_shift_row f emp ksum n) =
           of_int (max 0 (min (n - (letters_weekday emp + letters_sat emp)) n)) \<and>
         not_worked (legacy_shift_row f emp ksum n) = of_int (letters_weekday emp + letters_sat emp) \<and>
         work_percent (legacy_shift_row f emp ksum n) =
           round2 (unrounded_percent (shift_days emp n) n) \<and>
         kpi_final (legacy_shift_row f emp ksum n) =
           round2 (float_final (unrounded_percent (shift_days emp n) n) ksum) \<and>
         r_kpi_sum (legacy_shift_row f emp ksum n) = ksum"
proof -
  let ?a = "letters_weekday emp + letters_sat emp"
  have c: "(if n < (if n - ?a < 0 then 0 else n - ?a) then n else (if n - ?a < 0 then 0 else n - ?a))
        = max 0 (min (n - ?a) n)"
    using assms by (simp add: max_def min_def)
  show ?thesis
    using assms unfolding legacy_shift_row_def Let_def c clamp_if_chain
    by (simp add: unrounded_percent_def shift_days_def)
qed

lemma calculate_day_kpi_fields:
  assumes "0 < n"
  shows "\<exists>r. calculate_day_kpi emp kpi_info n = Inr (Some r) \<and>
           days_assigned r = n \<and>
           days_worked r = round2 (max 0 (min
              (case worked_days_total emp of
                 TotalNum t \<Rightarrow> t
               | TotalBad \<Rightarrow> of_int (n - letters_weekday emp)
               | TotalNone \<Rightarrow> of_int (n - letters_weekday emp)) (of_int n))) \<and>
           work_percent r = round2 (unrounded_percent (day_days emp n) n) \<and>
           kpi_final r =
             round2 (float_final (unrounded_percent (day_days emp n) n) (kpi_sum kpi_info)) \<and>
           r_kpi_sum r = kpi_sum kpi_info \<and> r_fio r = fio emp"
  using assms by (simp add: calculate_day_kpi_def Let_def unrounded_percent_def day_days_def)

lemma legacy_day_row_fields:
  assumes "0 < n"
  shows "days_assigned (legacy_day_row f emp ksum n) = n \<and>
         days_worked (legacy_day_row f emp ksum n) = max 0 (min
              (case worked_days_total emp of
                 TotalNum t \<Rightarrow> t
               | TotalBad \<Rightarrow> of_int (n - letters_weekday emp)
               | TotalNone \<Rightarrow> of_int (n - letters_weekday emp)) (of_int n)) \<and>
         work_percent (legacy_day_row f emp ksum n) =
           round2 (unrounded_percent (day_days emp n) n) \<and>
         kpi_final (legacy_day_row f emp ksum n) =
           round2 (float_final (unrounded_percent (day_days emp n) n) ksum) \<and>
         r_kpi_sum (legacy_day_row f emp ksum n) = ksum"
  using assms unfolding legacy_day_row_def Let_def clamp_days_if_chain[OF assms] clamp_if_chain
  by (simp add: unrounded_percent_def day_days_def)

section \<open>Trimming is idempotent\<close>

lemma dropWhile_no_head: "xs = [] \<or> \<not> P (hd xs) \<Longrightarrow> dropWhile P xs = xs"
  by (cases xs) auto

lemma dropWhile_head: "dropWhile P xs = [] \<or> \<not> P (hd (dropWhile P xs))"
  using hd_dropWhile by blast

lemma dropWhile_keeps_last:
  "dropWhile P xs \<noteq> [] \<Longrightarrow> last (dropWhile P xs) = last xs"
  by (induction xs) (auto split: if_splits)

lemma strip_strip: "strip (strip s) = strip s"
proof -
  let ?a = "dropWhile isspace s"
  let ?b = "dropWhile isspace (rev ?a)"
  have b: "?b = [] \<or> \<not> isspace (hd ?b)" by (rule dropWhile_head)
  have "rev ?b = [] \<or> \<not> isspace (hd (rev ?b))"
  proof (cases "?b = []")
    case True
    then show ?thesis by simp
  next
    case False
    then have "last ?b = last (rev ?a)" by (rule dropWhile_keeps_last)
    moreover have "rev ?a \<noteq> []"
    proof
      assume "rev ?a = []"
      then have "dropWhile isspace (rev ?a) = dropWhile isspace []" by (rule arg_cong)
      then have "?b = []" by (simp only: dropWhile.simps)
      then show False using False by (simp only:)
    qed
    ultimately have "last ?b = hd ?a" by (simp add: last_rev)
    moreover have "?a \<noteq> []" using \<open>rev ?a \<noteq> []\<close> by simp
    then have "\<not> isspace (hd ?a)" using hd_dropWhile by blast
    ultimately show ?thesis using False by (simp add: hd_rev)
  qed
  then have 1: "dropWhile isspace (rev ?b) = rev ?b" by (rule dropWhile_no_head)
  have 2: "dropWhile isspace ?b = ?b" using b by (rule dropWhile_no_head)
  show ?thesis
    unfolding strip_def 1 by (simp add: 2)
qed

lemma name_key_strip: "name_key (strip s) = name_key s"
  by (simp add: name_key_def strip_strip)

section \<open>The invariant of the loops\<close>

lemma percent_okI:
  "work_percent r = round2 (unrounded_percent days n) \<Longrightarrow>
   kpi_final r = round2 (float_final (unrounded_percent days n) (r_kpi_sum r)) \<Longrightarrow>
   percent_ok r"
proof -
  assume a: "work_percent r = round2 (unrounded_percent days n)"
     and b: "kpi_final r = round2 (float_final (unrounded_percent days n) (r_kpi_sum r))"
  let ?p = "unrounded_percent days n"
  have p: "0 \<le> ?p \<and> ?p \<le> 100" by (rule unrounded_percent_bounds)
  then have "0 \<le> round2 ?p \<and> round2 ?p \<le> 100" using round2_bounds by blast
  then show ?thesis unfolding percent_ok_def using a b p by metis
qed

lemma calculate_day_kpi_cases:
  "calculate_day_kpi emp kpi_info n = Inr None \<or>
   (\<exists>r. calculate_day_kpi emp kpi_info n = Inr (Some r) \<and> r_fio r = fio emp \<and> percent_ok r)"
proof (cases "0 < n")
  case True
  obtain r where r: "calculate_day_kpi emp kpi_info n = Inr (Some r)"
      "work_percent r = round2 (unrounded_percent (day_days emp n) n)"
      "kpi_final r =
         round2 (float_final (unrounded_percent (day_days emp n) n) (kpi_sum kpi_info))"
      "r_kpi_sum r = kpi_sum kpi_info" "r_fio r = fio emp"
    using calculate_day_kpi_fields[OF True, of emp kpi_info] by blast
  have "percent_ok r" using r(2,3,4) percent_okI[of r "day_days emp n" n] by simp
  then show ?thesis using r(1,5) by blast
next
  case False
  then show ?thesis by (simp add: calculate_day_kpi_def)
qed

lemma calculate_shift_kpi_cases:
  "calculate_shift_kpi emp kpi_info n = Inr None \<or>
   (\<exists>r. calculate_shift_kpi emp kpi_info n = Inr (Some r) \<and> r_fio r = fio emp \<and> percent_ok r)"
proof (cases "0 < n")
  case True
  obtain r where r: "calculate_shift_kpi emp kpi_info n = Inr (Some r)"
      "work_percent r = round2 (unrounded_percent (shift_days emp n) n)"
      "kpi_final r =
         round2 (float_final (unrounded_percent (shift_days emp n) n) (kpi_sum kpi_info))"
      "r_kpi_sum r = kpi_sum kpi_info" "r_fio r = fio emp"
    using calculate_shift_kpi_fields[OF True, of emp kpi_info] by blast
  have "percent_ok r" using r(2,3,4) percent_okI[of r "shift_days emp n" n] by simp
  then show ?thesis using r(1,5) by blast
next
  case False
  then show ?thesis by (simp add: calculate_shift_kpi_def)
qed

lemma calculate_step_cases:
  "calculate_step kpi_map nch_day nd_shift (results, errors, seen) emp = (results, errors, seen) \<or>
   (name_key (fio emp) \<in> seen \<and>
    calculate_step kpi_map nch_day nd_shift (results, errors, seen) emp =
      (results, errors @ [\<lparr>e_fio = strip (fio emp), e_type = DUPLICATE\<rparr>], seen)) \<or>
   (name_key (fio emp) \<notin> seen \<and>
    (calculate_step kpi_map nch_day nd_shift (results, errors, seen) emp =
       (results, errors, insert (name_key (fio emp)) seen) \<or>
     (\<exists>k. calculate_step kpi_map nch_day nd_shift (results, errors, seen) emp =
       (results, errors @ [\<lparr>e_fio = strip (fio emp), e_type = k\<rparr>],
        insert (name_key (fio emp)) seen)) \<or>
     (\<exists>r. r_fio r = fio emp \<and> percent_ok r \<and>
        calculate_step kpi_map nch_day nd_shift (results, errors, seen) emp =
       (results @ [r], errors, insert (name_key (fio emp)) seen))))"
proof -
  have d: "\<And>info. calculate_day_kpi emp info nch_day = Inr None \<or>
     (\<exists>r. calculate_day_kpi emp info nch_day = Inr (Some r) \<and> r_fio r = fio emp \<and> percent_ok r)"
    using calculate_day_kpi_cases by blast
  have s: "\<And>info. calculate_shift_kpi emp info nd_shift = Inr None \<or>
     (\<exists>r. calculate_shift_kpi emp info nd_shift = Inr (Some r) \<and> r_fio r = fio emp \<and> percent_ok r)"
    using calculate_shift_kpi_cases by blast
  show ?thesis
  proof (cases "strip (fio emp) = []")
    case True
    then show ?thesis by (simp add: calculate_step_def)
  next
    case ne: False
    show ?thesis
    proof (cases "name_key (fio emp) \<in> seen")
      case True
      then show ?thesis using ne by (simp add: calculate_step_def name_key_def Let_def)
    next
      case ns: False
      show ?thesis
      proof (cases "kpi_map (name_key (fio emp))")
        case None
        then show ?thesis using ne ns
          by (auto simp add: calculate_step_def name_key_def Let_def)
      next
        case (Some info)
        show ?thesis
        proof (cases "strip (category_code info) = str_4")
          case True
          then show ?thesis using ne ns Some
            by (auto simp add: calculate_step_def name_key_def Let_def)
        next
          case False
          show ?thesis
          proof (cases "lower (schedule_type info) = str_day")
            case True
            then show ?thesis using ne ns Some False d[of info]
              by (auto simp add: calculate_step_def name_key_def Let_def)
          next
            case nd: False
            then show ?thesis using ne ns Some False s[of info]
              by (auto simp add: calculate_step_def name_key_def Let_def)
          qed
        qed
      qed
    qed
  qed
qed

lemma legacy_day_row_percent_ok: "0 < n \<Longrightarrow> percent_ok (legacy_day_row f emp ksum n)"
  using legacy_day_row_fields[of n f emp ksum]
    percent_okI[of "legacy_day_row f emp ksum n" "day_days emp n" n]
  by simp

lemma legacy_shift_row_percent_ok: "0 < n \<Longrightarrow> percent_ok (legacy_shift_row f emp ksum n)"
  using legacy_shift_row_fields[of n f emp ksum]
    percent_okI[of "legacy_shift_row f emp ksum n" "shift_days emp n" n]
  by simp

lemma legacy_row_fio:
  "r_fio (legacy_day_row f emp ksum n) = f" "r_fio (legacy_shift_row f emp ksum n) = f"
  by (simp_all add: legacy_day_row_def legacy_shift_row_def Let_def)

lemma legacy_step_cases:
  "legacy_step kpi_map nch_day nd_shift (results, errors, seen) emp = (results, errors, seen) \<or>
   (name_key (fio emp) \<in> seen \<and>
    legacy_step kpi_map nch_day nd_shift (results, errors, seen) emp =
      (results, errors @ [\<lparr>e_fio = strip (fio emp), e_type = DUPLICATE\<rparr>], seen)) \<or>
   (name_key (fio emp) \<notin> seen \<and>
    ((\<exists>k. legacy_step kpi_map nch_day nd_shift (results, errors, seen) emp =
       (results, errors @ [\<lparr>e_fio = strip (fio emp), e_type = k\<rparr>],
        insert (name_key (fio emp)) seen)) \<or>
     (\<exists>r. r_fio r = strip (fio emp) \<and> percent_ok r \<and>
        legacy_step kpi_map nch_day nd_shift (results, errors, seen) emp =
       (results @ [r], errors, insert (name_key (fio emp)) seen))))"
proof (cases "strip (fio emp) = []")
  case True
  then show ?thesis by (simp add: legacy_step_def)
next
  case ne: False
  show ?thesis
  proof (cases "name_key (fio emp) \<in> seen")
    case True
    then show ?thesis using ne by (simp add: legacy_step_def name_key_def Let_def)
  next
    case ns: False
    show ?thesis
    proof (cases "kpi_map (name_key (fio emp))")
      case None
      then show ?thesis using ne ns
        by (auto simp add: legacy_step_def name_key_def Let_def)
    next
      case (Some info)
      show ?thesis
        using ne ns Some legacy_day_row_percent_ok legacy_shift_row_percent_ok
        by (auto simp add: legacy_step_def name_key_def Let_def legacy_row_fio)
    qed
  qed
qed

lemma output_keys_simps:
  "output_keys results (errors @ [\<lparr>e_fio = f, e_type = DUPLICATE\<rparr>]) = output_keys results errors"
  "k \<noteq> DUPLICATE \<Longrightarrow>
   set (output_keys results (errors @ [\<lparr>e_fio = f, e_type = k\<rparr>])) =
     insert (name_key f) (set (output_keys results errors))"
  "k \<noteq> DUPLICATE \<Longrightarrow>
   distinct (output_keys results (errors @ [\<lparr>e_fio = f, e_type = k\<rparr>])) =
     (distinct (output_keys results errors) \<and> name_key f \<notin> set (output_keys results errors))"
  "set (output_keys (results @ [r]) errors) =
     insert (name_key (r_fio r)) (set (output_keys results errors))"
  "distinct (output_keys (results @ [r]) errors) =
     (distinct (output_keys results errors) \<and> name_key (r_fio r) \<notin> set (output_keys results errors))"
  by (auto simp add: output_keys_def)

lemma loop_inv_error:
  "loop_inv (results, errors, seen) \<Longrightarrow> name_key f \<notin> seen \<Longrightarrow>
   loop_inv (results, errors @ [\<lparr>e_fio = f, e_type = k\<rparr>], insert (name_key f) seen)"
  by (cases "k = DUPLICATE") (auto simp add: loop_inv_def output_keys_simps)

lemma loop_inv_result:
  "loop_inv (results, errors, seen) \<Longrightarrow> name_key (r_fio r) \<notin> seen \<Longrightarrow> percent_ok r \<Longrightarrow>
   loop_inv (results @ [r], errors, insert (name_key (r_fio r)) seen)"
  by (auto simp add: loop_inv_def output_keys_simps)

lemma loop_inv_seen:
  "loop_inv (results, errors, seen) \<Longrightarrow> loop_inv (results, errors, insert k seen)"
  by (auto simp add: loop_inv_def)

lemma loop_inv_duplicate:
  "loop_inv (results, errors, seen) \<Longrightarrow>
   loop_inv (results, errors @ [\<lparr>e_fio = f, e_type = DUPLICATE\<rparr>], seen)"
  by (simp add: loop_inv_def output_keys_simps)

lemma calculate_step_inv:
  assumes "loop_inv st"
  shows "loop_inv (calculate_step kpi_map nch_day nd_shift st emp)"
proof -
  obtain results errors seen where st: "st = (results, errors, seen)" by (cases st) auto
  have i: "loop_inv (results, errors, seen)" using assms st by simp
  have r: "\<And>r. r_fio r = fio emp \<Longrightarrow> name_key (fio emp) \<notin> seen \<Longrightarrow> percent_ok r \<Longrightarrow>
    loop_inv (results @ [r], errors, insert (name_key (fio emp)) seen)"
    using loop_inv_result[OF i] by metis
  show ?thesis
    unfolding st
    using calculate_step_cases[of kpi_map nch_day nd_shift results errors seen emp]
      loop_inv_duplicate[OF i] loop_inv_seen[OF i]
      loop_inv_error[OF i, of "strip (fio emp)"] r i
    by (auto simp add: name_key_strip)
qed

lemma legacy_step_inv:
  assumes "loop_inv st"
  shows "loop_inv (legacy_step kpi_map nch_day nd_shift st emp)"
proof -
  obtain results errors seen where st: "st = (results, errors, seen)" by (cases st) auto
  have i: "loop_inv (results, errors, seen)" using assms st by simp
  have r: "\<And>r. r_fio r = strip (fio emp) \<Longrightarrow> name_key (fio emp) \<notin> seen \<Longrightarrow> percent_ok r \<Longrightarrow>
    loop_inv (results @ [r], errors, insert (name_key (fio emp)) seen)"
    using loop_inv_result[OF i] by (metis name_key_strip)
  show ?thesis
    unfolding st
    using legacy_step_cases[of kpi_map nch_day nd_shift results errors seen emp]
      loop_inv_duplicate[OF i] 
      loop_inv_error[OF i, of "strip (fio emp)"] r i
    by (auto simp add: name_key_strip)
qed

lemma fold_inv:
  "(\<And>st x. P st \<Longrightarrow> P (f x st)) \<Longrightarrow> P st \<Longrightarrow> P (fold f xs st)"
  by (induction xs arbitrary: st) auto

lemma loop_inv_init: "loop_inv ([], [], {})"
  by (simp add: loop_inv_def output_keys_def)

lemma calculate_inv:
  "calculate employees kpi_table nch_day nd_shift = (results, errors) \<Longrightarrow>
   list_all percent_ok results \<and> distinct (output_keys results errors)"
proof -
  assume c: "calculate employees kpi_table nch_day nd_shift = (results, errors)"
  let ?st = "fold (\<lambda>emp st. calculate_step (build_kpi_map kpi_table) nch_day nd_shift st emp)
             employees ([], [], {})"
  have "loop_inv ?st"
    by (rule fold_inv) (simp_all add: calculate_step_inv loop_inv_init)
  moreover obtain seen where "?st = (results, errors, seen)"
    using c by (auto simp add: calculate_def split: prod.splits)
  ultimately show ?thesis by (simp add: loop_inv_def)
qed

lemma legacy_inv:
  "calculate_kpi_for_employees employees kpi_table nch_day nd_shift = (results, errors) \<Longrightarrow>
   list_all percent_ok results \<and> distinct (output_keys results errors)"
proof -
  assume c: "calculate_kpi_for_employees employees kpi_table nch_day nd_shift = (results, errors)"
  let ?st = "fold (\<lambda>emp st. legacy_step (legacy_kpi_map kpi_table) nch_day nd_shift st emp)
             employees ([], [], {})"
  have "loop_inv ?st"
    by (rule fold_inv) (simp_all add: legacy_step_inv loop_inv_init)
  moreover obtain seen where "?st = (results, errors, seen)"
    using c by (auto simp add: calculate_kpi_for_employees_def split: prod.splits)
  ultimately show ?thesis by (simp add: loop_inv_def)
qed

section \<open>The fields of a row\<close>






section \<open>The shift branch\<close>

text \<open>
  C2. In the shift branch, for every processed record: the absence count is
  \<open>letters_weekday + letters_sat\<close> (letters on Sundays and holidays do not enter), the
  days worked are the norm minus the absence count, clamped to between 0 and the norm,
  whatever the total-days column holds, and \<open>not_worked\<close> is the absence count itself.
  The improved calculator takes the shift branch for every schedule type other than
  \<open>"day"\<close>, the first calculator for \<open>"shift"\<close>.
\<close>

theorem shift_branch_absences:
  assumes "0 < nd_shift"
  shows "(reaches_branch kpi_map category_code seen emp kpi_info \<and>
          lower (schedule_type kpi_info) \<noteq> str_day \<longrightarrow>
          (\<exists>r. calculate_step kpi_map nch_day nd_shift (results, errors, seen) emp =
                 (results @ [r], errors, insert (lower (strip (fio emp))) seen) \<and>
               days_assigned r = nd_shift \<and>
               days_worked r =
                 of_int (max 0 (min (nd_shift - (letters_weekday emp + letters_sat emp)) nd_shift)) \<and>
               not_worked r = of_int (letters_weekday emp + letters_sat emp))) \<and>
         (reaches_branch legacy_map categoryCode seen emp item \<and>
          lower (strip (scheduleType item)) = str_shift \<longrightarrow>
          (\<exists>r. legacy_step legacy_map nch_day nd_shift (legacy_results, errors, seen) emp =
                 (legacy_results @ [r], errors, insert (lower (strip (fio emp))) seen) \<and>
               days_assigned r = nd_shift \<and>
               days_worked r =
                 of_int (max 0 (min (nd_shift - (letters_weekday emp + letters_sat emp)) nd_shift)) \<and>
               not_worked r = of_int (letters_weekday emp + letters_sat emp)))"
proof (intro conjI impI)
  assume h: "reaches_branch kpi_map category_code seen emp kpi_info \<and>
          lower (schedule_type kpi_info) \<noteq> str_day"
  obtain r where r: "calculate_shift_kpi emp kpi_info nd_shift = Inr (Some r)"
      "days_assigned r = nd_shift"
      "days_worked r =
         of_int (max 0 (min (nd_shift - (letters_weekday emp + letters_sat emp)) nd_shift))"
      "not_worked r = of_int (letters_weekday emp + letters_sat emp)"
    using calculate_shift_kpi_fields[OF assms, of emp kpi_info] by blast
  have "calculate_step kpi_map nch_day nd_shift (results, errors, seen) emp =
          (results @ [r], errors, insert (lower (strip (fio emp))) seen)"
    using h r(1) calculate_step_branch[of kpi_map seen emp kpi_info nch_day nd_shift results errors]
    by simp
  then show "\<exists>r. calculate_step kpi_map nch_day nd_shift (results, errors, seen) emp =
                 (results @ [r], errors, insert (lower (strip (fio emp))) seen) \<and>
               days_assigned r = nd_shift \<and>
               days_worked r =
                 of_int (max 0 (min (nd_shift - (letters_weekday emp + letters_sat emp)) nd_shift)) \<and>
               not_worked r = of_int (letters_weekday emp + letters_sat emp)"
    using r(2,3,4) by blast
next
  assume h: "reaches_branch legacy_map categoryCode seen emp item \<and>
          lower (strip (scheduleType item)) = str_shift"
  have "legacy_step legacy_map nch_day nd_shift (legacy_results, errors, seen) emp =
          (legacy_results @ [legacy_shift_row (strip (fio emp)) emp (kpiSum item) nd_shift],
           errors, insert (lower (strip (fio emp))) seen)"
    using h assms legacy_step_branch[of legacy_map seen emp item nch_day nd_shift legacy_results errors]
    by simp
  then show "\<exists>r. legacy_step legacy_map nch_day nd_shift (legacy_results, errors, seen) emp =
                 (legacy_results @ [r], errors, insert (lower (strip (fio emp))) seen) \<and>
               days_assigned r = nd_shift \<and>
               days_worked r =
                 of_int (max 0 (min (nd_shift - (letters_weekday emp + letters_sat emp)) nd_shift)) \<and>
               not_worked r = of_int (letters_weekday emp + letters_sat emp)"
    using legacy_shift_row_fields[OF assms, of "strip (fio emp)" emp "kpiSum item"] by blast
qed

text \<open>
  The instance of the specification: a norm of 30, four letters on Sundays and none on
  weekdays or Saturdays give 30 days worked and 0 not worked.
\<close>

theorem shift_branch_absences_witness:
  "0 < (30::int) \<and>
   reaches_branch (build_kpi_map [item_shift]) category_code {} emp_sunday info_shift \<and>
   lower (schedule_type info_shift) \<noteq> str_day \<and>
   reaches_branch (legacy_kpi_map [item_shift]) categoryCode {} emp_sunday item_shift \<and>
   lower (strip (scheduleType item_shift)) = str_shift \<and>
   (\<exists>r. calculate_step (build_kpi_map [item_shift]) 22 30 ([], [], {}) emp_sunday =
          ([r], [], {[97]}) \<and> days_assigned r = 30 \<and> days_worked r = 30 \<and> not_worked r = 0) \<and>
   (\<exists>r. legacy_step (legacy_kpi_map [item_shift]) 22 30 ([], [], {}) emp_sunday =
          ([r], [], {[97]}) \<and> days_assigned r = 30 \<and> days_worked r = 30 \<and> not_worked r = 0)"
proof -
  have n: "0 < (30::int)" by simp
  have a: "reaches_branch (build_kpi_map [item_shift]) category_code {} emp_sunday info_shift"
    by (simp add: reaches_branch_def build_kpi_map_def emp_sunday_def item_shift_def
        info_shift_def str_defs)
  have b: "lower (schedule_type info_shift) \<noteq> str_day"
    by (simp add: info_shift_def str_defs)
  have c: "reaches_branch (legacy_kpi_map [item_shift]) categoryCode {} emp_sunday item_shift"
    by (simp add: reaches_branch_def legacy_kpi_map_def emp_sunday_def item_shift_def str_defs)
  have d: "lower (strip (scheduleType item_shift)) = str_shift"
    by (simp add: item_shift_def str_defs)
  have k: "lower (strip (fio emp_sunday)) = [97]"
    by (simp add: emp_sunday_def str_defs)
  have v: "letters_weekday emp_sunday + letters_sat emp_sunday = 0"
    by (simp add: emp_sunday_def)
  note t = shift_branch_absences[OF n, where kpi_map = "build_kpi_map [item_shift]"
      and seen = "{}" and emp = emp_sunday and kpi_info = info_shift
      and legacy_map = "legacy_kpi_map [item_shift]" and item = item_shift
      and nch_day = 22 and results = "[]" and errors = "[]" and legacy_results = "[]"]
  show ?thesis
    using t a b c d n by (simp add: k v)
qed



section \<open>The day branch\<close>




section \<open>Percentage and final amount\<close>


text \<open>
  Every result of a run has a percentage between 0 and 100, and its percentage and final
  amount come from one percentage before rounding.
\<close>

lemma every_result_percent_ok:
  "list_all percent_ok (fst (calculate employees kpi_table nch_day nd_shift)) \<and>
   list_all percent_ok (fst (calculate_kpi_for_employees employees kpi_table nch_day nd_shift))"
  using calculate_inv[of employees kpi_table nch_day nd_shift
        "fst (calculate employees kpi_table nch_day nd_shift)"
        "snd (calculate employees kpi_table nch_day nd_shift)"]
    legacy_inv[of employees kpi_table nch_day nd_shift
        "fst (calculate_kpi_for_employees employees kpi_table nch_day nd_shift)"
        "snd (calculate_kpi_for_employees employees kpi_table nch_day nd_shift)"]
  by simp












section \<open>One row for each name\<close>

text \<open>
  C4, as stated, fails in both calculators: a name that occurs twice in the timesheet
  has a result for its first occurrence and an error of kind \<open>DUPLICATE\<close> for its
  second, so it appears as one of each.
\<close>

theorem duplicate_name_result_and_error:
  "map name_key (map r_fio (fst (calculate [emp_a, emp_a_again] [item_a] 22 30))) = [[97]] \<and>
   map name_key (map e_fio (snd (calculate [emp_a, emp_a_again] [item_a] 22 30))) = [[97]] \<and>
   map e_type (snd (calculate [emp_a, emp_a_again] [item_a] 22 30)) = [DUPLICATE] \<and>
   map name_key (map r_fio
     (fst (calculate_kpi_for_employees [emp_a, emp_a_again] [item_a] 22 30))) = [[97]] \<and>
   map name_key (map e_fio
     (snd (calculate_kpi_for_employees [emp_a, emp_a_again] [item_a] 22 30))) = [[97]] \<and>
   map e_type (snd (calculate_kpi_for_employees [emp_a, emp_a_again] [item_a] 22 30)) =
     [DUPLICATE]"
  by (simp add: calc_defs str_defs emp_a_def emp_a_again_def item_a_def name_key_def)

text \<open>
  C4, amended. Within one run, the names of the results and of the errors of a kind
  other than \<open>DUPLICATE\<close>, compared after trimming and lower-casing, are pairwise
  different: a name has at most one result or at most one such error, never one of each
  and never more than one of either. Errors of kind \<open>DUPLICATE\<close> are not counted.
\<close>

theorem one_row_per_name:
  "distinct (output_keys (fst (calculate employees kpi_table nch_day nd_shift))
                         (snd (calculate employees kpi_table nch_day nd_shift))) \<and>
   distinct (output_keys (fst (calculate_kpi_for_employees employees kpi_table nch_day nd_shift))
                         (snd (calculate_kpi_for_employees employees kpi_table nch_day nd_shift)))"
  using calculate_inv[of employees kpi_table nch_day nd_shift
        "fst (calculate employees kpi_table nch_day nd_shift)"
        "snd (calculate employees kpi_table nch_day nd_shift)"]
    legacy_inv[of employees kpi_table nch_day nd_shift
        "fst (calculate_kpi_for_employees employees kpi_table nch_day nd_shift)"
        "snd (calculate_kpi_for_employees employees kpi_table nch_day nd_shift)"]
  by simp

section \<open>Where the two calculators differ\<close>

text \<open>
  A record that reaches the schedule branch while the norm of its branch is not
  positive: the improved calculator only marks the name as seen, the first calculator
  appends the error \<open>INVALID_PLAN\<close>.
\<close>

lemma improved_invalid_plan_silent:
  assumes "reaches_branch kpi_map category_code seen emp kpi_info"
      and "(if lower (schedule_type kpi_info) = str_day then nch_day else nd_shift) \<le> 0"
  shows "calculate_step kpi_map nch_day nd_shift (results, errors, seen) emp =
           (results, errors, insert (lower (strip (fio emp))) seen)"
  using assms(2)
    calculate_step_branch[OF assms(1), of nch_day nd_shift results errors]
  by (simp add: calculate_day_kpi_def calculate_shift_kpi_def split: if_splits)

lemma legacy_invalid_plan_error:
  assumes "reaches_branch legacy_map categoryCode seen emp item"
      and "(if lower (strip (scheduleType item)) = str_shift then nd_shift else nch_day) \<le> 0"
  shows "legacy_step legacy_map nch_day nd_shift (results, errors, seen) emp =
           (results, errors @ [\<lparr>e_fio = strip (fio emp), e_type = INVALID_PLAN\<rparr>],
            insert (lower (strip (fio emp))) seen)"
  using assms(2)
    legacy_step_branch[OF assms(1), of nch_day nd_shift results errors]
  by (simp split: if_splits)

text \<open>
  C5 on the code. With a day norm of 0 and a shift norm of 30, an employee of the day
  schedule who is in the roster: the improved calculator returns no result and no error
  for the employee, the first calculator returns the error \<open>INVALID_PLAN\<close>.
\<close>

theorem invalid_plan_silently_skipped:
  "calculate [emp_a] [item_a] 0 30 = ([], []) \<and>
   fst (calculate_kpi_for_employees [emp_a] [item_a] 0 30) = [] \<and>
   map e_fio (snd (calculate_kpi_for_employees [emp_a] [item_a] 0 30)) = [[97]] \<and>
   map e_type (snd (calculate_kpi_for_employees [emp_a] [item_a] 0 30)) = [INVALID_PLAN]"
  by (simp add: calc_defs str_defs emp_a_def item_a_def)

text \<open>
  C6 on the code. A roster entry with the schedule type \<open>"night"\<close>: the improved
  calculator computes the shift branch (schedule type \<open>"shift"\<close>, 30 days assigned, 27
  worked), the first calculator the day branch (schedule type \<open>"day"\<close>, 22 days assigned,
  20 worked).
\<close>

theorem unrecognised_schedule_routed_to_shift:
  "map r_schedule_type (fst (calculate [emp_a] [item_night] 22 30)) = [str_shift] \<and>
   map days_assigned (fst (calculate [emp_a] [item_night] 22 30)) = [30] \<and>
   map days_worked (fst (calculate [emp_a] [item_night] 22 30)) = [27] \<and>
   map r_schedule_type (fst (calculate_kpi_for_employees [emp_a] [item_night] 22 30)) = [str_day] \<and>
   map days_assigned (fst (calculate_kpi_for_employees [emp_a] [item_night] 22 30)) = [22] \<and>
   map days_worked (fst (calculate_kpi_for_employees [emp_a] [item_night] 22 30)) = [20]"
  by (simp add: calc_defs str_defs emp_a_def item_night_def)

section \<open>The parser and the classifier of days\<close>

text \<open>
  The model at work on the sample grid: the name header is found in the second row, the
  days 1, 2 and 6 and the total-days column are located, and the one employee gets a
  number on a weekday, a letter on a weekday, a number on the Saturday and the total 20.
\<close>

lemma strip_kz_header: "strip kz_header = kz_header"
  by (simp add: kz_header_def str_defs)

lemma lower_strip_total_marker: "lower (strip total_marker) = total_marker"
  by (simp add: total_marker_def str_defs)

lemma total_marker_not_header: "lower kz_header \<noteq> total_marker"
  by (simp add: total_marker_def kz_header_def str_defs)

lemma sample_has_kz_header: "has_kz_header sample_grid"
  by (simp add: has_kz_header_def sample_grid_def sample_header_row_def strip_kz_header)

lemma sample_header_row_idx:
  "find_first (list_ex (\<lambda>v. strip (str_of v) = kz_header)) sample_grid = Some 1"
  by (simp add: sample_grid_def sample_header_row_def strip_kz_header)
    (simp add: kz_header_def str_defs)

lemma sample_fio_col:
  "find_first (\<lambda>v. strip (str_of v) = kz_header) sample_header_row = Some 0"
  by (simp add: sample_header_row_def strip_kz_header)

lemma sample_day_cols:
  "day_columns kz_day_label (enumerate 0 sample_day_row) = Inr [(Suc 0, 1), (2, 2), (3, 6)]"
  by (simp add: sample_day_row_def kz_day_label_def enumerate_eq_zip str_defs isdigit_def
      is_ascii_digit_def int_of_digits_def digits_value_def)

lemma title_not_total_marker: "lower (strip [84]) \<noteq> total_marker"
  by (simp add: total_marker_def str_defs)

lemma sample_total_col: "find_cell sample_grid total_marker [0 ..< 6] = Some (Suc 0, 4)"
  using total_marker_not_header title_not_total_marker
  by (simp add: find_cell_def lower_strip_total_marker sample_grid_def sample_header_row_def
      strip_kz_header upt_conv_Cons)

lemma sample_row:
  "kz_row 2025 12 {} 0 [(Suc 0, 1), (2, 2), (3, 6)] (Some 4) sample_employee_row =
     Inr (Some \<lparr>fio = [65, 98], letters_weekday = 1, letters_sat = 0, letters_sun = 0,
       letters_holiday = 0, numbers_weekday = 1, numbers_sat = 1, numbers_sun = 0,
       numbers_holiday = 0, worked_days_total = TotalNum 20\<rparr>)"
  by (simp add: kz_row_def sample_employee_row_def row_get_def str_defs str_dash_def
      upper_is_ve_def kz_header_def date_defs try_float_def py_float_def split_sign_def
      scale10_def digits_value_def is_ascii_digit_def new_employee_def count_cell_def Let_def)

lemma sample_grid_parsed:
  "parse_timesheet_from_excel sample_grid plain_frame 2025 12 {} =
     Inr [\<lparr>fio = [65, 98], letters_weekday = 1, letters_sat = 0, letters_sun = 0,
       letters_holiday = 0, numbers_weekday = 1, numbers_sat = 1, numbers_sun = 0,
       numbers_holiday = 0, worked_days_total = TotalNum 20\<rparr>]"
proof -
  have n: "sample_grid ! Suc 0 = sample_header_row" "sample_grid ! Suc (Suc 0) = sample_day_row"
    "drop (Suc (Suc (Suc 0))) sample_grid = [sample_employee_row]" "length sample_grid = 4"
    by (simp_all add: sample_grid_def)
  show ?thesis
    by (simp add: parse_timesheet_from_excel_def sample_has_kz_header parse_kz_template_def
        sample_header_row_idx sample_fio_col sample_day_cols n sample_total_col sample_row)
qed

lemma has_kz_header_iff:
  "has_kz_header df = (\<exists>row \<in> set df. \<exists>v \<in> set row. strip (str_of v) = kz_header)"
  by (simp add: has_kz_header_def list_ex_iff)

text \<open>
  C7. If no cell of the grid is the name header of the first layout and, in the grid
  read with its first row as header row, no column is labelled with the employee column
  of the second layout, then parsing fails with the error that the format of the
  timesheet could not be determined; no employee record is returned.
\<close>

theorem unrecognised_format_fails:
  assumes "\<forall>row \<in> set df. \<forall>v \<in> set row. strip (str_of v) \<noteq> kz_header"
      and "\<forall>c \<in> set (columns df2). c \<noteq> CStr employee_column"
  shows "parse_timesheet_from_excel df df2 year month holiday_days =
           Inl (ValueError FormatNotRecognised)"
proof -
  have "\<not> has_kz_header df" using assms(1) by (simp add: has_kz_header_iff)
  moreover have "CStr employee_column \<notin> set (columns df2)" using assms(2) by blast
  ultimately show ?thesis by (simp add: parse_timesheet_from_excel_def)
qed

text \<open>A grid whose only cell is \<open>"x"\<close>.\<close>

theorem unrecognised_format_fails_witness:
  "\<not> has_kz_header plain_grid \<and> CStr employee_column \<notin> set (columns plain_frame) \<and>
   parse_timesheet_from_excel plain_grid plain_frame 2025 12 {} =
     Inl (ValueError FormatNotRecognised)"
proof -
  have a: "\<forall>row \<in> set plain_grid. \<forall>v \<in> set row. strip (str_of v) \<noteq> kz_header"
    by (simp add: plain_grid_def kz_header_def str_defs)
  have b: "\<forall>c \<in> set (columns plain_frame). c \<noteq> CStr employee_column"
    by (simp add: plain_frame_def employee_column_def)
  have "\<not> has_kz_header plain_grid" using a by (simp add: has_kz_header_iff)
  moreover have "CStr employee_column \<notin> set (columns plain_frame)" using b by blast
  ultimately show ?thesis
    using unrecognised_format_fails[OF a b, of 2025 12 "{}"] by simp
qed

text \<open>
  C8. For every date whose day is in the set of holidays the classifier returns
  \<open>Holiday\<close>: the membership is decided before the calendar is consulted, so it holds
  for every valid date, also one that falls on a Saturday or a Sunday.
\<close>

theorem holiday_takes_precedence:
  assumes "day_num \<in> holiday_days"
  shows "classify_day year month day_num holiday_days = Inr Holiday"
  using assms by (simp add: classify_day_def)

text \<open>6 December 2025 is a Saturday; declared a holiday it is classified as one.\<close>

theorem holiday_takes_precedence_witness:
  "(6::int) \<in> {6} \<and> valid_date 2025 12 6 \<and> weekday (2025, 12, 6) = 5 \<and>
   classify_day 2025 12 6 {} = Inr Sat \<and> classify_day 2025 12 6 {6} = Inr Holiday"
proof -
  have h: "(6::int) \<in> {6}" by simp
  have "valid_date 2025 12 6 \<and> weekday (2025, 12, 6) = 5 \<and> classify_day 2025 12 6 {} = Inr Sat"
    by (simp add: date_defs)
  then show ?thesis using holiday_takes_precedence[OF h, of 2025 12] h by simp
qed

text \<open>
  For arguments that fit the C type \<open>int\<close>, a triple that is not a date and whose day
  is not a holiday is classified as a weekday.
\<close>

lemma classify_day_invalid_date:
  assumes "in_c_int year" and "in_c_int month" and "in_c_int day_num"
      and "\<not> valid_date year month day_num" and "day_num \<notin> holiday_days"
  shows "classify_day year month day_num holiday_days = Inr Weekday"
  using assms by (simp add: classify_day_def date_def)

lemma classify_day_november_31: "classify_day 2025 11 31 {} = Inr Weekday"
  by (simp add: date_defs)

text \<open>
  C9 on the code. The triple (2025, 11, 2147483648) is not a date and its day is not a
  holiday; the constructor of the date raises \<open>OverflowError\<close>, which the handler for
  \<open>ValueError\<close> does not catch, so the classifier raises. The day number is the one
  \<open>int\<close> gives for a cell \<open>"2147483648"\<close> in the row of day numbers, and parsing such a
  grid ends with the same exception.
\<close>

theorem classify_day_overflow:
  "\<not> valid_date 2025 11 2147483648 \<and> 2147483648 \<notin> ({} :: int set) \<and>
   classify_day 2025 11 2147483648 {} = Inl OverflowError \<and>
   parse_timesheet_from_excel overflow_grid plain_frame 2025 11 {} = Inl OverflowError"
  by (simp add: parse_defs str_defs date_defs overflow_grid_def plain_frame_def Let_def)

end
